theory Spec2Isabelle
  imports Main
begin

section \<open>Values crossing the binding boundary\<close>

text \<open>
  The binding file \<^verbatim>\<open>torch/csrc/DeviceAccelerator.cpp\<close> relays three kinds of values:
  device identifiers (kind and index), device indices and stream handles. Their C++
  declarations (\<^verbatim>\<open>c10::DeviceType\<close>, \<^verbatim>\<open>c10::DeviceIndex\<close>, \<^verbatim>\<open>c10::Device\<close>,
  \<^verbatim>\<open>c10::Stream\<close>) live in headers outside this file.

  Modelled from the spec: the enumeration \<^verbatim>\<open>c10::DeviceType\<close>. The binding names only
  \<^verbatim>\<open>c10::kCPU\<close>; every other kind is an accelerator ("a non-CPU compute backend"), here
  numbered.
\<close>

datatype DeviceType = kCPU | kAccelerator nat

text \<open>
  Modelled from the spec: \<^verbatim>\<open>c10::DeviceIndex\<close>, "a small integer, may be negative as a
  sentinel". The binding only compares indices with \<open>0\<close> and with each other and never
  computes with them, so the width plays no role and an index is an \<open>int\<close>.
\<close>

type_synonym DeviceIndex = int

text \<open>
  Modelled from the spec: \<^verbatim>\<open>c10::Device\<close>, "an opaque device identifier (kind + index)",
  and \<^verbatim>\<open>c10::Stream\<close>, "an opaque stream handle (associated with a device index)".
\<close>

record Device =
  dev_type :: DeviceType
  dev_index :: DeviceIndex

record Stream =
  stream_device :: Device
  stream_id :: int

text \<open>
  Modelled from the spec: \<^verbatim>\<open>c10::Device(type)\<close>, the one-argument constructor used by
  the binding, declared with the type outside this file: a device of the given kind whose
  index is the negative sentinel for "unspecified", \<open>-1\<close>.
\<close>

definition Device_of_type :: "DeviceType \<Rightarrow> Device" where
  "Device_of_type t = \<lparr>dev_type = t, dev_index = - 1\<rparr>"

text \<open>\<^verbatim>\<open>stream.device_index()\<close>: the index of the device the stream is bound to.\<close>

definition device_index :: "Stream \<Rightarrow> DeviceIndex" where
  "device_index st = dev_index (stream_device st)"

section \<open>The accelerator layer as explicit state\<close>

text \<open>
  Every collaborator call the binding makes is recorded, in order, in the field \<open>calls\<close>
  of the state, so that a theorem can say which calls an operation made and in which
  order. Releasing and reacquiring the interpreter lock are recorded too.
\<close>

datatype call =
    GetAccelerator bool
  | MaybeInitializeDevice DeviceType
  | MaybeInitializeNoDevice
  | IsDeviceInitialized DeviceType
  | DeviceCount
  | SetDeviceIndex DeviceIndex
  | GetDeviceIndex
  | SetCurrentStream Stream
  | GetCurrentStream DeviceIndex
  | SynchronizeDevice DeviceIndex
  | GilRelease
  | GilAcquire

datatype error =
    NoAccelerator
  | BadOptionalAccess
  | DeviceFault DeviceIndex

text \<open>
  Modelled from the spec: the state owned by the accelerator layer and by the host
  interpreter, none of which is declared in the binding file.
  \<^item> \<open>backend\<close>: the accelerator kind that resolution finds, \<open>None\<close> when no accelerator
    backend is available;
  \<^item> \<open>initialized\<close>: the kinds whose device subsystem has been lazily initialised;
  \<^item> \<open>device_count\<close>: the count the layer reports;
  \<^item> \<open>current_index\<close>: the currently selected device index;
  \<^item> \<open>current_stream\<close>: the current stream of each device index;
  \<^item> \<open>sync_faulty\<close>: the device indices on which the blocking synchronize primitive
    raises (the failure path of the blocking call);
  \<^item> \<open>gil_held\<close>: whether the calling thread holds the interpreter's exclusivity lock;
  \<^item> \<open>sync_lock_seen\<close>: for each call of the blocking synchronize primitive so far,
    oldest first, whether the calling thread held the interpreter lock while it ran;
  \<^item> \<open>calls\<close>: the collaborator calls made so far, oldest first.
\<close>

record accel_state =
  backend :: "DeviceType option"
  initialized :: "DeviceType \<Rightarrow> bool"
  device_count :: DeviceIndex
  current_index :: DeviceIndex
  current_stream :: "DeviceIndex \<Rightarrow> Stream"
  sync_faulty :: "DeviceIndex \<Rightarrow> bool"
  gil_held :: bool
  sync_lock_seen :: "bool list"
  calls :: "call list"

text \<open>
  An operation takes the state and returns its outcome with the state it leaves behind:
  \<open>Inl e\<close> is the C++ exception \<open>e\<close> propagating out, \<open>Inr v\<close> a normal return of \<open>v\<close>.
  The state is returned on both paths, since what was done before a throw stays done.
\<close>

type_synonym 'a action = "accel_state \<Rightarrow> (error + 'a) \<times> accel_state"

definition ret :: "'a \<Rightarrow> 'a action" where
  "ret v s = (Inr v, s)"

definition throw :: "error \<Rightarrow> 'a action" where
  "throw e s = (Inl e, s)"

text \<open>Sequencing of two statements: an exception of the first skips the second.\<close>

definition and_then :: "'a action \<Rightarrow> ('a \<Rightarrow> 'b action) \<Rightarrow> 'b action" where
  "and_then m f s = (case m s of (Inl e, s') \<Rightarrow> (Inl e, s') | (Inr v, s') \<Rightarrow> f v s')"

definition record_call :: "call \<Rightarrow> accel_state \<Rightarrow> accel_state" where
  "record_call c s = s\<lparr>calls := calls s @ [c]\<rparr>"

subsection \<open>The collaborators\<close>

text \<open>
  Modelled from the spec: \<^verbatim>\<open>at::accelerator::getAccelerator(checked)\<close>, "accelerator
  resolution (optionally strict -- fail vs. return none)". It is declared in the
  accelerator layer, not in the binding file.
\<close>

definition getAccelerator :: "bool \<Rightarrow> (DeviceType option) action" where
  "getAccelerator checked s =
     (if checked \<and> backend s = None
      then throw NoAccelerator (record_call (GetAccelerator checked) s)
      else ret (backend s) (record_call (GetAccelerator checked) s))"

text \<open>\<^verbatim>\<open>std::optional::value()\<close>: the contained value, or an exception when there is none.\<close>

definition value_of :: "'a option \<Rightarrow> 'a action" where
  "value_of x = (case x of None \<Rightarrow> throw BadOptionalAccess | Some v \<Rightarrow> ret v)"

text \<open>\<^verbatim>\<open>std::optional::value_or(d)\<close>: the contained value, or \<open>d\<close> when there is none.\<close>

definition value_or :: "'a option \<Rightarrow> 'a \<Rightarrow> 'a" where
  "value_or x d = (case x of None \<Rightarrow> d | Some v \<Rightarrow> v)"

text \<open>
  Modelled from the spec: \<^verbatim>\<open>torch::utils::maybe_initialize_device\<close>, "lazy per-backend
  initialization keyed by accelerator kind", from \<^verbatim>\<open>torch/csrc/utils/device_lazy_init.h\<close>.
  The binding calls it with a device kind and, in the device-count operation, with an
  optional device kind. The call with an empty optional is made and recorded as well;
  with no kind there is nothing to initialise.
\<close>

definition maybe_initialize_device :: "DeviceType \<Rightarrow> unit action" where
  "maybe_initialize_device t s =
     ret () (record_call (MaybeInitializeDevice t) (s\<lparr>initialized := (initialized s)(t := True)\<rparr>))"

definition maybe_initialize_device_opt :: "DeviceType option \<Rightarrow> unit action" where
  "maybe_initialize_device_opt x s =
     (case x of
        None \<Rightarrow> ret () (record_call MaybeInitializeNoDevice s)
      | Some t \<Rightarrow> maybe_initialize_device t s)"

text \<open>
  Modelled from the spec: \<^verbatim>\<open>torch::utils::is_device_initialized\<close>, the
  "device-initialized query".
\<close>

definition is_device_initialized :: "DeviceType \<Rightarrow> bool action" where
  "is_device_initialized t s = ret (initialized s t) (record_call (IsDeviceInitialized t) s)"

text \<open>
  Modelled from the spec: \<^verbatim>\<open>at::accelerator::deviceCount\<close>, which reports an "integer
  count".
\<close>

definition deviceCount :: "DeviceIndex action" where
  "deviceCount s = ret (device_count s) (record_call DeviceCount s)"

text \<open>
  Modelled from the spec: \<^verbatim>\<open>at::accelerator::setDeviceIndex\<close> and
  \<^verbatim>\<open>at::accelerator::getDeviceIndex\<close>, "device index get/set".
\<close>

definition setDeviceIndex :: "DeviceIndex \<Rightarrow> unit action" where
  "setDeviceIndex i s = ret () (record_call (SetDeviceIndex i) (s\<lparr>current_index := i\<rparr>))"

definition getDeviceIndex :: "DeviceIndex action" where
  "getDeviceIndex s = ret (current_index s) (record_call GetDeviceIndex s)"

text \<open>
  Modelled from the spec: \<^verbatim>\<open>at::accelerator::setCurrentStream\<close> and
  \<^verbatim>\<open>at::accelerator::getCurrentStream\<close>, "current-stream get/set". A stream is "bound to
  one device index", and setting it makes it the current stream of that device index.
\<close>

definition setCurrentStream :: "Stream \<Rightarrow> unit action" where
  "setCurrentStream st s =
     ret () (record_call (SetCurrentStream st)
              (s\<lparr>current_stream := (current_stream s)(device_index st := st)\<rparr>))"

definition getCurrentStream :: "DeviceIndex \<Rightarrow> Stream action" where
  "getCurrentStream i s = ret (current_stream s i) (record_call (GetCurrentStream i) s)"

text \<open>
  Modelled from the spec: \<^verbatim>\<open>at::accelerator::synchronizeDevice\<close>, "a blocking
  device-synchronize primitive", whose failure is "whatever the delegated
  accelerator-layer call raises". The call runs in the state it is entered in: it notes
  in \<open>sync_lock_seen\<close> whether the interpreter lock is held at that moment, before it
  returns or raises.
\<close>

definition synchronizeDevice :: "DeviceIndex \<Rightarrow> unit action" where
  "synchronizeDevice i s =
     (if sync_faulty s i
      then throw (DeviceFault i)
             (record_call (SynchronizeDevice i) (s\<lparr>sync_lock_seen := sync_lock_seen s @ [gil_held s]\<rparr>))
      else ret ()
             (record_call (SynchronizeDevice i) (s\<lparr>sync_lock_seen := sync_lock_seen s @ [gil_held s]\<rparr>)))"

text \<open>
  The scope \<^verbatim>\<open>{ py::gil_scoped_release no_gil; body }\<close> of pybind11: the constructor of
  the guard releases the interpreter lock, the destructor reacquires it when the scope is
  left, by a normal exit or by an exception.
\<close>

definition gil_scoped_release :: "'a action \<Rightarrow> 'a action" where
  "gil_scoped_release body s =
     (case body (record_call GilRelease (s\<lparr>gil_held := False\<rparr>)) of
        (r, s') \<Rightarrow> (r, record_call GilAcquire (s'\<lparr>gil_held := True\<rparr>)))"

section \<open>The seven bound operations\<close>

text \<open>
  The lambdas registered by \<^verbatim>\<open>initModule\<close>, statement by statement. Isabelle names
  cannot start with an underscore, so \<^verbatim>\<open>_accelerator_getAccelerator\<close> is
  \<open>accelerator_getAccelerator\<close>, and so on.
\<close>

definition accelerator_getAccelerator :: "Device action" where
  "accelerator_getAccelerator =
     and_then (getAccelerator False) (\<lambda>a.
     ret (Device_of_type (value_or a kCPU)))"

definition accelerator_deviceCount :: "DeviceIndex action" where
  "accelerator_deviceCount =
     and_then (getAccelerator False) (\<lambda>device_type.
     and_then (maybe_initialize_device_opt device_type) (\<lambda>_.
     deviceCount))"

definition accelerator_setDeviceIndex :: "DeviceIndex \<Rightarrow> unit action" where
  "accelerator_setDeviceIndex idx =
     and_then (and_then (getAccelerator True) value_of) (\<lambda>device_type.
     if idx < 0 then ret ()
     else
       and_then (maybe_initialize_device device_type) (\<lambda>_.
       setDeviceIndex idx))"

definition accelerator_getDeviceIndex :: "DeviceIndex action" where
  "accelerator_getDeviceIndex =
     and_then (and_then (getAccelerator True) value_of) (\<lambda>device_type.
     and_then (maybe_initialize_device device_type) (\<lambda>_.
     getDeviceIndex))"

definition accelerator_setStream :: "Stream \<Rightarrow> unit action" where
  "accelerator_setStream stream =
     and_then (and_then (getAccelerator True) value_of) (\<lambda>device_type.
     and_then (maybe_initialize_device device_type) (\<lambda>_.
     and_then getDeviceIndex (\<lambda>cur.
     and_then (if cur \<noteq> device_index stream
               then setDeviceIndex (device_index stream) else ret ()) (\<lambda>_.
     setCurrentStream stream))))"

definition accelerator_getStream :: "DeviceIndex \<Rightarrow> Stream action" where
  "accelerator_getStream idx =
     and_then (and_then (getAccelerator True) value_of) (\<lambda>device_type.
     and_then (maybe_initialize_device device_type) (\<lambda>_.
     getCurrentStream idx))"

definition accelerator_synchronizeDevice :: "DeviceIndex \<Rightarrow> unit action" where
  "accelerator_synchronizeDevice idx =
     and_then (and_then (getAccelerator True) value_of) (\<lambda>device_type.
     and_then (is_device_initialized device_type) (\<lambda>init.
     if \<not> init then ret ()
     else
       and_then (maybe_initialize_device device_type) (\<lambda>_.
       gil_scoped_release (synchronizeDevice idx))))"

section \<open>Concrete states\<close>

text \<open>
  Two concrete states of the accelerator layer: one with an accelerator backend of two
  devices, nothing initialised yet and device 0 selected; one with no accelerator
  backend at all.
\<close>

definition default_stream :: "DeviceType \<Rightarrow> DeviceIndex \<Rightarrow> Stream" where
  "default_stream t i = \<lparr>stream_device = \<lparr>dev_type = t, dev_index = i\<rparr>, stream_id = 0\<rparr>"

definition state_accel :: accel_state where
  "state_accel =
     \<lparr>backend = Some (kAccelerator 0), initialized = (\<lambda>t. False), device_count = 2,
      current_index = 0, current_stream = default_stream (kAccelerator 0),
      sync_faulty = (\<lambda>i. False), gil_held = True, sync_lock_seen = [], calls = []\<rparr>"

definition state_cpu_only :: accel_state where
  "state_cpu_only =
     \<lparr>backend = None, initialized = (\<lambda>t. False), device_count = 0,
      current_index = 0, current_stream = default_stream kCPU,
      sync_faulty = (\<lambda>i. False), gil_held = True, sync_lock_seen = [], calls = []\<rparr>"

text \<open>
  The first state again after lazy initialisation of the backend, and the same with a
  device 1 on which the blocking synchronize primitive raises.
\<close>

definition state_ready :: accel_state where
  "state_ready = state_accel\<lparr>initialized := (\<lambda>t. t = kAccelerator 0)\<rparr>"

definition state_faulty :: accel_state where
  "state_faulty = state_ready\<lparr>sync_faulty := (\<lambda>i. i = 1)\<rparr>"

text \<open>A stream bound to device index 1, and one bound to device index 0.\<close>

definition stream_on_1 :: Stream where
  "stream_on_1 = \<lparr>stream_device = \<lparr>dev_type = kAccelerator 0, dev_index = 1\<rparr>, stream_id = 7\<rparr>"

definition stream_on_0 :: Stream where
  "stream_on_0 = \<lparr>stream_device = \<lparr>dev_type = kAccelerator 0, dev_index = 0\<rparr>, stream_id = 5\<rparr>"

section \<open>Reading the call log\<close>

text \<open>
  Replaying a call log from a given state of the interpreter lock: \<open>syncs_without_gil\<close>
  holds when every call of the blocking synchronize primitive in the log happens while
  the lock is released.
\<close>

fun syncs_without_gil :: "bool \<Rightarrow> call list \<Rightarrow> bool" where
  "syncs_without_gil held [] = True"
| "syncs_without_gil held (GilRelease # cs) = syncs_without_gil False cs"
| "syncs_without_gil held (GilAcquire # cs) = syncs_without_gil True cs"
| "syncs_without_gil held (SynchronizeDevice i # cs) = (\<not> held \<and> syncs_without_gil held cs)"
| "syncs_without_gil held (c # cs) = syncs_without_gil held cs"

text \<open>The calls an operation added to the log of the state \<open>s\<close> it started from.\<close>

definition new_calls :: "accel_state \<Rightarrow> accel_state \<Rightarrow> call list" where
  "new_calls s s' = drop (length (calls s)) (calls s')"

text \<open>
  What the calls of the blocking synchronize primitive that an operation made, started
  from \<open>s\<close>, saw of the interpreter lock.
\<close>

definition new_lock_seen :: "accel_state \<Rightarrow> accel_state \<Rightarrow> bool list" where
  "new_lock_seen s s' = drop (length (sync_lock_seen s)) (sync_lock_seen s')"

section \<open>Stepping through the sequencing\<close>

lemma and_then_ret [simp]: "and_then (ret v) f s = f v s"
  by (simp add: and_then_def ret_def)

lemma and_then_throw [simp]: "and_then (throw e) f s = throw e s"
  by (simp add: and_then_def throw_def)

lemma and_then_assoc: "and_then (and_then m f) g = and_then m (\<lambda>x. and_then (f x) g)"
  by (rule ext) (simp add: and_then_def split: prod.splits sum.splits)

lemma resolve_strict_some:
  "backend s = Some t \<Longrightarrow>
   and_then (and_then (getAccelerator True) value_of) f s = f t (record_call (GetAccelerator True) s)"
  by (simp add: and_then_def getAccelerator_def value_of_def ret_def record_call_def)

lemma resolve_strict_none:
  "backend s = None \<Longrightarrow>
   and_then (and_then (getAccelerator True) value_of) f s
     = (Inl NoAccelerator, record_call (GetAccelerator True) s)"
  by (simp add: and_then_def getAccelerator_def throw_def record_call_def)

text \<open>One step of each collaborator in front of the rest of an operation.\<close>

lemma step_getAccelerator_lax:
  "and_then (getAccelerator False) f s = f (backend s) (record_call (GetAccelerator False) s)"
  by (simp add: and_then_def getAccelerator_def ret_def)

lemma step_maybe_initialize_device:
  "and_then (maybe_initialize_device t) f s
     = f () (record_call (MaybeInitializeDevice t) (s\<lparr>initialized := (initialized s)(t := True)\<rparr>))"
  by (simp add: and_then_def maybe_initialize_device_def ret_def)

lemma step_is_device_initialized:
  "and_then (is_device_initialized t) f s
     = f (initialized s t) (record_call (IsDeviceInitialized t) s)"
  by (simp add: and_then_def is_device_initialized_def ret_def)

lemma step_getDeviceIndex:
  "and_then getDeviceIndex f s = f (current_index s) (record_call GetDeviceIndex s)"
  by (simp add: and_then_def getDeviceIndex_def ret_def)

lemma step_setDeviceIndex:
  "and_then (setDeviceIndex i) f s
     = f () (record_call (SetDeviceIndex i) (s\<lparr>current_index := i\<rparr>))"
  by (simp add: and_then_def setDeviceIndex_def ret_def)

lemma step_maybe_initialize_device_opt:
  "and_then (maybe_initialize_device_opt x) f s
     = (case x of
          None \<Rightarrow> f () (record_call MaybeInitializeNoDevice s)
        | Some t \<Rightarrow> f () (record_call (MaybeInitializeDevice t)
                             (s\<lparr>initialized := (initialized s)(t := True)\<rparr>)))"
  by (simp add: and_then_def maybe_initialize_device_opt_def maybe_initialize_device_def ret_def
      split: option.splits)

lemmas steps =
  resolve_strict_some resolve_strict_none step_getAccelerator_lax step_maybe_initialize_device
  step_maybe_initialize_device_opt
  step_is_device_initialized step_getDeviceIndex step_setDeviceIndex

section \<open>Set device index\<close>

text \<open>
  C1. For every negative device index and every prior state in which an accelerator is
  resolvable, the set-device-index operation returns normally and leaves the whole state
  of the accelerator layer as it was, the currently selected device index and the
  initialisation flags included; the only collaborator call it makes is the strict
  accelerator resolution, so no device initialisation and no set call take place.
\<close>

theorem setDeviceIndex_negative_noop:
  assumes "idx < 0" and "backend s = Some t"
  shows "accelerator_setDeviceIndex idx s = (Inr (), s\<lparr>calls := calls s @ [GetAccelerator True]\<rparr>)"
  using assms
  by (simp add: accelerator_setDeviceIndex_def resolve_strict_some ret_def record_call_def)

theorem setDeviceIndex_negative_noop_witness:
  "(- 1 :: int) < 0 \<and> backend state_accel = Some (kAccelerator 0)
   \<and> accelerator_setDeviceIndex (- 1) state_accel
       = (Inr (), state_accel\<lparr>calls := calls state_accel @ [GetAccelerator True]\<rparr>)
   \<and> current_index (snd (accelerator_setDeviceIndex (- 1) state_accel)) = 0"
  using setDeviceIndex_negative_noop [of "- 1" state_accel "kAccelerator 0"]
  by (simp add: state_accel_def)

text \<open>
  C9. When no accelerator is resolvable, the set-device-index operation called with a
  negative index raises the resolution failure instead of returning as a no-op: the
  strict resolution runs, and fails, before the index is looked at.
\<close>

theorem setDeviceIndex_negative_unresolved:
  assumes "idx < 0" and "backend s = None"
  shows "accelerator_setDeviceIndex idx s
           = (Inl NoAccelerator, s\<lparr>calls := calls s @ [GetAccelerator True]\<rparr>)"
  using assms
  by (simp add: accelerator_setDeviceIndex_def resolve_strict_none record_call_def)

theorem setDeviceIndex_negative_unresolved_witness:
  "(- 1 :: int) < 0 \<and> backend state_cpu_only = None
   \<and> accelerator_setDeviceIndex (- 1) state_cpu_only
       = (Inl NoAccelerator, state_cpu_only\<lparr>calls := calls state_cpu_only @ [GetAccelerator True]\<rparr>)"
  using setDeviceIndex_negative_unresolved [of "- 1" state_cpu_only]
  by (simp add: state_cpu_only_def)

section \<open>Get current accelerator\<close>

text \<open>
  C2. The get-current-accelerator operation never raises. When no accelerator backend is
  available it returns a device identifier of CPU kind; when one is available it returns
  the device identifier of that accelerator kind.
\<close>

theorem getAccelerator_cpu_fallback:
  "(backend s = None \<longrightarrow>
      fst (accelerator_getAccelerator s) = Inr (Device_of_type kCPU)
      \<and> dev_type (Device_of_type kCPU) = kCPU)
   \<and> (\<forall>t. backend s = Some t \<longrightarrow>
      fst (accelerator_getAccelerator s) = Inr (Device_of_type t)
      \<and> dev_type (Device_of_type t) = t)"
  by (simp add: accelerator_getAccelerator_def and_then_def getAccelerator_def ret_def
      value_or_def Device_of_type_def)

theorem getAccelerator_cpu_fallback_witness:
  "backend state_cpu_only = None
   \<and> fst (accelerator_getAccelerator state_cpu_only) = Inr \<lparr>dev_type = kCPU, dev_index = - 1\<rparr>
   \<and> backend state_accel = Some (kAccelerator 0)
   \<and> fst (accelerator_getAccelerator state_accel)
       = Inr \<lparr>dev_type = kAccelerator 0, dev_index = - 1\<rparr>"
  using getAccelerator_cpu_fallback [of state_cpu_only] getAccelerator_cpu_fallback [of state_accel]
  by (simp add: state_cpu_only_def state_accel_def Device_of_type_def)

section \<open>Synchronize device\<close>

text \<open>
  C3. For every device index, when an accelerator is resolved whose device subsystem has
  not been initialized, the synchronize-device operation returns at once: it makes the
  strict resolution and the initialized query and nothing else, so the blocking
  synchronize primitive is not invoked and the device subsystem is not initialized.
\<close>

theorem synchronizeDevice_uninitialized_noop:
  assumes "backend s = Some t" and "\<not> initialized s t"
  shows "accelerator_synchronizeDevice idx s
           = (Inr (), s\<lparr>calls := calls s @ [GetAccelerator True, IsDeviceInitialized t]\<rparr>)"
  using assms
  by (simp add: accelerator_synchronizeDevice_def steps ret_def record_call_def)

theorem synchronizeDevice_uninitialized_noop_witness:
  "backend state_accel = Some (kAccelerator 0) \<and> \<not> initialized state_accel (kAccelerator 0)
   \<and> accelerator_synchronizeDevice 1 state_accel
       = (Inr (), state_accel\<lparr>calls := calls state_accel
                                @ [GetAccelerator True, IsDeviceInitialized (kAccelerator 0)]\<rparr>)"
  using synchronizeDevice_uninitialized_noop [of state_accel "kAccelerator 0" 1]
  by (simp add: state_accel_def)

text \<open>
  C7. The synchronize-device operation runs the blocking synchronize primitive inside the
  scope that releases the interpreter lock. Entered with the lock held, it returns with
  the lock held on every exit path (failed resolution, the uninitialized early return,
  normal completion, an exception of the blocking call), and no call of the blocking
  primitive it makes runs with the lock held. On the path that reaches the primitive, the
  primitive runs exactly once and finds the lock released; the lock is released just
  before the call and reacquired just after it, whether the call returns or raises.
\<close>

theorem synchronizeDevice_gil_scope:
  assumes "gil_held s"
  shows "gil_held (snd (accelerator_synchronizeDevice idx s))
       \<and> True \<notin> set (new_lock_seen s (snd (accelerator_synchronizeDevice idx s)))
       \<and> syncs_without_gil True (new_calls s (snd (accelerator_synchronizeDevice idx s)))
       \<and> (backend s = Some t \<and> initialized s t \<longrightarrow>
            accelerator_synchronizeDevice idx s
              = (if sync_faulty s idx then Inl (DeviceFault idx) else Inr (),
                 s\<lparr>sync_lock_seen := sync_lock_seen s @ [False],
                   calls := calls s @ [GetAccelerator True, IsDeviceInitialized t,
                                       MaybeInitializeDevice t, GilRelease,
                                       SynchronizeDevice idx, GilAcquire]\<rparr>))"
proof -
  let ?r = "accelerator_synchronizeDevice idx s"
  have run: "?r = (if sync_faulty s idx then Inl (DeviceFault idx) else Inr (),
                   s\<lparr>sync_lock_seen := sync_lock_seen s @ [False],
                     calls := calls s @ [GetAccelerator True, IsDeviceInitialized u,
                                         MaybeInitializeDevice u, GilRelease,
                                         SynchronizeDevice idx, GilAcquire]\<rparr>)"
    if "backend s = Some u" and "initialized s u" for u
    using that assms
    by (cases s)
       (simp add: accelerator_synchronizeDevice_def steps gil_scoped_release_def
          synchronizeDevice_def ret_def throw_def record_call_def fun_upd_idem)
  have skip: "?r = (Inr (), s\<lparr>calls := calls s @ [GetAccelerator True, IsDeviceInitialized u]\<rparr>)"
    if "backend s = Some u" and "\<not> initialized s u" for u
    using that
    by (simp add: accelerator_synchronizeDevice_def steps ret_def record_call_def)
  have fail: "?r = (Inl NoAccelerator, s\<lparr>calls := calls s @ [GetAccelerator True]\<rparr>)"
    if "backend s = None"
    using that
    by (simp add: accelerator_synchronizeDevice_def steps record_call_def)
  have held: "gil_held (snd ?r) \<and> True \<notin> set (new_lock_seen s (snd ?r))
              \<and> syncs_without_gil True (new_calls s (snd ?r))"
  proof (cases "backend s")
    case None
    with assms show ?thesis by (simp add: fail new_calls_def new_lock_seen_def)
  next
    case (Some u)
    with assms show ?thesis
      by (cases "initialized s u") (simp_all add: run skip new_calls_def new_lock_seen_def)
  qed
  from held run [of t] show ?thesis by simp
qed

theorem synchronizeDevice_gil_scope_witness:
  "gil_held state_ready \<and> gil_held state_faulty
   \<and> backend state_faulty = Some (kAccelerator 0) \<and> initialized state_faulty (kAccelerator 0)
   \<and> fst (accelerator_synchronizeDevice 0 state_ready) = Inr ()
   \<and> gil_held (snd (accelerator_synchronizeDevice 0 state_ready))
   \<and> sync_lock_seen (snd (accelerator_synchronizeDevice 0 state_ready)) = [False]
   \<and> fst (accelerator_synchronizeDevice 1 state_faulty) = Inl (DeviceFault 1)
   \<and> gil_held (snd (accelerator_synchronizeDevice 1 state_faulty))
   \<and> sync_lock_seen (snd (accelerator_synchronizeDevice 1 state_faulty)) = [False]
   \<and> calls (snd (accelerator_synchronizeDevice 1 state_faulty))
       = [GetAccelerator True, IsDeviceInitialized (kAccelerator 0),
          MaybeInitializeDevice (kAccelerator 0), GilRelease, SynchronizeDevice 1, GilAcquire]"
  using synchronizeDevice_gil_scope [of state_ready 0 "kAccelerator 0"]
    synchronizeDevice_gil_scope [of state_faulty 1 "kAccelerator 0"]
  by (simp add: state_ready_def state_faulty_def state_accel_def)

section \<open>Set stream\<close>

text \<open>
  C4. For every stream bound to device index \<open>D\<close>, when an accelerator is resolved and
  the currently active device index is not \<open>D\<close>, the set-stream operation first calls
  the set-device-index primitive with \<open>D\<close> and only then the set-current-stream
  primitive with the stream; it returns normally, and afterwards the active device index
  is \<open>D\<close> and the current stream of \<open>D\<close> is the given stream.
\<close>

theorem setStream_switches_device_first:
  assumes "backend s = Some t" and "current_index s \<noteq> device_index stream"
  shows "accelerator_setStream stream s
           = (Inr (),
              s\<lparr>initialized := (initialized s)(t := True),
                current_index := device_index stream,
                current_stream := (current_stream s)(device_index stream := stream),
                calls := calls s @ [GetAccelerator True, MaybeInitializeDevice t, GetDeviceIndex,
                                    SetDeviceIndex (device_index stream), SetCurrentStream stream]\<rparr>)"
  using assms
  by (simp add: accelerator_setStream_def steps setCurrentStream_def ret_def record_call_def)

theorem setStream_switches_device_first_witness:
  "backend state_accel = Some (kAccelerator 0)
   \<and> current_index state_accel \<noteq> device_index stream_on_1
   \<and> fst (accelerator_setStream stream_on_1 state_accel) = Inr ()
   \<and> current_index (snd (accelerator_setStream stream_on_1 state_accel)) = 1
   \<and> current_stream (snd (accelerator_setStream stream_on_1 state_accel)) 1 = stream_on_1
   \<and> calls (snd (accelerator_setStream stream_on_1 state_accel))
       = [GetAccelerator True, MaybeInitializeDevice (kAccelerator 0), GetDeviceIndex,
          SetDeviceIndex 1, SetCurrentStream stream_on_1]"
  using setStream_switches_device_first [of state_accel "kAccelerator 0" stream_on_1]
  by (simp add: state_accel_def stream_on_1_def device_index_def)

text \<open>
  C10, as stated, fails in its frame "only the current stream is changed": the operation
  lazily initializes the resolved accelerator kind before it compares the device indices,
  so with the stream's device index equal to the active one and the kind not yet
  initialized, the initialization flag changes as well.
\<close>

theorem setStream_same_device_counterexample:
  "current_index state_accel = device_index stream_on_0
   \<and> \<not> initialized state_accel (kAccelerator 0)
   \<and> initialized (snd (accelerator_setStream stream_on_0 state_accel)) (kAccelerator 0)"
  by (simp add: state_accel_def stream_on_0_def device_index_def accelerator_setStream_def
      steps setCurrentStream_def ret_def record_call_def)

text \<open>
  C10, amended. When the stream's device index equals the currently active device index,
  the set-stream operation never calls the set-device-index primitive and leaves the
  active device index as it was, whatever the state; with an accelerator resolved, it
  returns normally, and what changes is the lazy initialization of the resolved
  accelerator kind and the current stream of the stream's device index, nothing else.
\<close>

theorem setStream_same_device:
  assumes "current_index s = device_index stream"
  shows "current_index (snd (accelerator_setStream stream s)) = current_index s
         \<and> SetDeviceIndex i \<notin> set (new_calls s (snd (accelerator_setStream stream s)))
         \<and> (backend s = Some t \<longrightarrow>
              accelerator_setStream stream s
                = (Inr (),
                   s\<lparr>initialized := (initialized s)(t := True),
                     current_stream := (current_stream s)(device_index stream := stream),
                     calls := calls s @ [GetAccelerator True, MaybeInitializeDevice t,
                                         GetDeviceIndex, SetCurrentStream stream]\<rparr>))"
proof (cases "backend s")
  case None
  then show ?thesis
    by (simp add: accelerator_setStream_def steps record_call_def new_calls_def)
next
  case (Some u)
  with assms show ?thesis
    by (simp add: accelerator_setStream_def steps setCurrentStream_def ret_def record_call_def
        new_calls_def)
qed

theorem setStream_same_device_witness:
  "current_index state_accel = device_index stream_on_0
   \<and> backend state_accel = Some (kAccelerator 0)
   \<and> fst (accelerator_setStream stream_on_0 state_accel) = Inr ()
   \<and> current_index (snd (accelerator_setStream stream_on_0 state_accel)) = 0
   \<and> current_stream (snd (accelerator_setStream stream_on_0 state_accel)) 0 = stream_on_0
   \<and> calls (snd (accelerator_setStream stream_on_0 state_accel))
       = [GetAccelerator True, MaybeInitializeDevice (kAccelerator 0), GetDeviceIndex,
          SetCurrentStream stream_on_0]"
  using setStream_same_device [of state_accel stream_on_0 0 "kAccelerator 0"]
  by (simp add: state_accel_def stream_on_0_def device_index_def)

section \<open>Device count and get stream\<close>

text \<open>
  C6. The device-count operation takes no input and always returns the count the
  collaborator reports; when an accelerator kind is resolved, it lazily initializes the
  device subsystem of that kind first: the calls are the resolution, the initialization
  and the count, in this order.
\<close>

theorem deviceCount_initializes_then_counts:
  "fst (accelerator_deviceCount s) = Inr (device_count s)
   \<and> (backend s = Some t \<longrightarrow>
        snd (accelerator_deviceCount s)
          = s\<lparr>initialized := (initialized s)(t := True),
              calls := calls s @ [GetAccelerator False, MaybeInitializeDevice t, DeviceCount]\<rparr>)"
  by (cases "backend s")
     (simp_all add: accelerator_deviceCount_def steps maybe_initialize_device_opt_def
        deviceCount_def ret_def record_call_def)

theorem deviceCount_initializes_then_counts_witness:
  "fst (accelerator_deviceCount state_accel) = Inr 2
   \<and> backend state_accel = Some (kAccelerator 0)
   \<and> initialized (snd (accelerator_deviceCount state_accel)) (kAccelerator 0)
   \<and> calls (snd (accelerator_deviceCount state_accel))
       = [GetAccelerator False, MaybeInitializeDevice (kAccelerator 0), DeviceCount]"
  using deviceCount_initializes_then_counts [of state_accel "kAccelerator 0"]
  by (simp add: state_accel_def)

text \<open>
  C8. For every device index, with an accelerator resolved, the get-stream operation
  lazily initializes the device subsystem and returns exactly the stream that the
  collaborator holds as the current stream of that device index.
\<close>

theorem getStream_returns_current_stream:
  assumes "backend s = Some t"
  shows "accelerator_getStream idx s
           = (Inr (current_stream s idx),
              s\<lparr>initialized := (initialized s)(t := True),
                calls := calls s @ [GetAccelerator True, MaybeInitializeDevice t,
                                    GetCurrentStream idx]\<rparr>)"
  using assms
  by (simp add: accelerator_getStream_def steps getCurrentStream_def ret_def record_call_def)

theorem getStream_returns_current_stream_witness:
  "backend state_accel = Some (kAccelerator 0)
   \<and> fst (accelerator_getStream 1 state_accel) = Inr (default_stream (kAccelerator 0) 1)
   \<and> initialized (snd (accelerator_getStream 1 state_accel)) (kAccelerator 0)
   \<and> calls (snd (accelerator_getStream 1 state_accel))
       = [GetAccelerator True, MaybeInitializeDevice (kAccelerator 0), GetCurrentStream 1]"
  using getStream_returns_current_stream [of state_accel "kAccelerator 0" 1]
  by (simp add: state_accel_def)

section \<open>Operations without a resolvable accelerator\<close>

text \<open>
  The five operations that resolve the accelerator in strict mode fail with the
  resolution failure when no accelerator is resolvable, having made no other collaborator
  call. The device-count operation is not among them: it resolves in non-strict mode and
  goes on to its two collaborator calls.
\<close>

lemma strict_operations_need_accelerator:
  assumes "backend s = None"
  shows "accelerator_setDeviceIndex idx s
           = (Inl NoAccelerator, s\<lparr>calls := calls s @ [GetAccelerator True]\<rparr>)
       \<and> accelerator_getDeviceIndex s
           = (Inl NoAccelerator, s\<lparr>calls := calls s @ [GetAccelerator True]\<rparr>)
       \<and> accelerator_setStream stream s
           = (Inl NoAccelerator, s\<lparr>calls := calls s @ [GetAccelerator True]\<rparr>)
       \<and> accelerator_getStream idx s
           = (Inl NoAccelerator, s\<lparr>calls := calls s @ [GetAccelerator True]\<rparr>)
       \<and> accelerator_synchronizeDevice idx s
           = (Inl NoAccelerator, s\<lparr>calls := calls s @ [GetAccelerator True]\<rparr>)"
proof -
  have strict: "\<And>f. and_then (and_then (getAccelerator True) value_of) f s
                   = (Inl NoAccelerator, s\<lparr>calls := calls s @ [GetAccelerator True]\<rparr>)"
    using assms by (simp add: resolve_strict_none record_call_def)
  show ?thesis
    unfolding accelerator_setDeviceIndex_def accelerator_getDeviceIndex_def
      accelerator_setStream_def accelerator_getStream_def accelerator_synchronizeDevice_def
    by (simp only: strict simp_thms)
qed

end
